theory Spec2Isabelle
  imports Main
begin

section \<open>nodeDelegate.ts: the process watcher\<close>

text \<open>
  \<^verbatim>\<open>onProcessExit(pid, callback)\<close> installs an interval timer. Each tick probes the
  process with \<^verbatim>\<open>process.kill(pid, 0)\<close>. The probe either returns or throws an error
  object whose \<^verbatim>\<open>code\<close> is a string such as \<^verbatim>\<open>EPERM\<close> or \<^verbatim>\<open>ESRCH\<close>.
\<close>

datatype probe = Returns | Throws string

text \<open>The second argument of \<^verbatim>\<open>setInterval\<close>, in milliseconds.\<close>

definition probeInterval :: nat where
  "probeInterval = 1000"

text \<open>
  One run of the interval handler. The state is the pair of the interval being still
  installed and the state \<open>s\<close> the callback acts on; \<^verbatim>\<open>clearInterval\<close> comes before
  the callback, as in the source.
\<close>

definition onProcessExit_tick :: "('s \<Rightarrow> 's) \<Rightarrow> probe \<Rightarrow> bool \<times> 's \<Rightarrow> bool \<times> 's" where
  "onProcessExit_tick callback r st =
     (case r of
        Returns \<Rightarrow> st
      | Throws code \<Rightarrow>
          if code \<noteq> ''EPERM'' then (False, callback (snd st)) else st)"

text \<open>
  The timer over a sequence of probe results: the handler runs for the next result only
  while the interval is installed; a cleared interval never runs again.
\<close>

fun onProcessExit_run :: "('s \<Rightarrow> 's) \<Rightarrow> probe list \<Rightarrow> bool \<times> 's \<Rightarrow> bool \<times> 's" where
  "onProcessExit_run callback [] st = st"
| "onProcessExit_run callback (r # rs) st =
     (if fst st then onProcessExit_run callback rs (onProcessExit_tick callback r st) else st)"

text \<open>\<^verbatim>\<open>onProcessExit\<close> itself: the interval is installed and nothing has been called.\<close>

definition onProcessExit :: "('s \<Rightarrow> 's) \<Rightarrow> probe list \<Rightarrow> 's \<Rightarrow> bool \<times> 's" where
  "onProcessExit callback rs s = onProcessExit_run callback rs (True, s)"

text \<open>A probe result that the handler takes for the death of the process.\<close>

fun fatal :: "probe \<Rightarrow> bool" where
  "fatal Returns = False"
| "fatal (Throws code) = (code \<noteq> ''EPERM'')"

section \<open>nodeDelegate.ts: the target tree\<close>

text \<open>
  \<^verbatim>\<open>NodeTarget\<close> objects refer to each other through \<^verbatim>\<open>_parent\<close> and
  \<^verbatim>\<open>_children\<close>, and \<^verbatim>\<open>_setParent\<close> mutates the parent's array in place, so
  the objects live in an explicit store addressed by references. The record has the
  fields of the class that the tree and the attach transitions read or write; the
  display name (built with \<^verbatim>\<open>path.basename\<close>), the connection and the protocol handle
  are left out.
\<close>

type_synonym ref = nat

record NodeTarget =
  parent :: "ref option"
  children :: "ref list"
  targetId :: string
  scriptName :: "string option"
  attached :: bool
  waitingForDebugger :: bool

text \<open>
  \<^verbatim>\<open>Cdp.Target.TargetInfo\<close>: \<^verbatim>\<open>title\<close> and \<^verbatim>\<open>openerId\<close> may be absent
  (\<^verbatim>\<open>undefined\<close>).
\<close>

record TargetInfo =
  ti_targetId :: string
  ti_title :: "string option"
  ti_openerId :: "string option"
  ti_type :: string

text \<open>
  The part of the launcher that targets touch: the store of target objects with its next
  free reference, the map \<^verbatim>\<open>_targets\<close> and the number of times
  \<^verbatim>\<open>_onTargetListChangedEmitter\<close> has fired.
\<close>

record tree =
  heap :: "ref \<Rightarrow> NodeTarget"
  nextRef :: ref
  targets :: "string \<rightharpoonup> ref"
  targetListChanged :: nat

text \<open>
  \<^verbatim>\<open>Array.prototype.indexOf\<close>: the first index holding the element, or \<open>-1\<close>.
\<close>

fun indexOf :: "'a list \<Rightarrow> 'a \<Rightarrow> int" where
  "indexOf [] x = -1"
| "indexOf (y # ys) x =
     (if y = x then 0 else (let i = indexOf ys x in if i < 0 then -1 else i + 1))"

text \<open>
  \<^verbatim>\<open>Array.prototype.splice(start, 1)\<close>: a negative start counts from the end (so
  \<open>-1\<close> removes the last element), a start beyond the end removes nothing.
\<close>

definition splice1 :: "int \<Rightarrow> 'a list \<Rightarrow> 'a list" where
  "splice1 start xs =
     (let len = int (length xs);
          s = (if start < 0 then max (len + start) 0 else min start len)
      in take (nat s) xs @ drop (nat s + 1) xs)"

definition hasParent :: "NodeTarget \<Rightarrow> bool" where
  "hasParent t = (parent t \<noteq> None)"

text \<open>\<^verbatim>\<open>_setParent\<close>, statement by statement; each statement reads the store the
  previous one left.\<close>

definition setParent :: "ref \<Rightarrow> ref option \<Rightarrow> tree \<Rightarrow> tree" where
  "setParent this p w =
     (let h = heap w;
          h1 = (case parent (h this) of
                  Some old \<Rightarrow>
                    h(old := (h old)\<lparr>children :=
                        splice1 (indexOf (children (h old)) this) (children (h old))\<rparr>)
                | None \<Rightarrow> h);
          h2 = h1(this := (h1 this)\<lparr>parent := p\<rparr>);
          h3 = (case parent (h2 this) of
                  Some new \<Rightarrow> h2(new := (h2 new)\<lparr>children := children (h2 new) @ [this]\<rparr>)
                | None \<Rightarrow> h2)
      in w\<lparr>heap := h3\<rparr>)"

text \<open>
  The constructor of \<^verbatim>\<open>NodeTarget\<close>: allocates the object, looks the opener up in
  \<^verbatim>\<open>_targets\<close> (an absent opener is looked up as \<^verbatim>\<open>undefined\<close>, which is no key
  of the map), sets the parent and registers the object under its identifier. It returns
  the reference of the new object.
\<close>

definition NodeTarget_new :: "tree \<Rightarrow> TargetInfo \<Rightarrow> ref \<times> tree" where
  "NodeTarget_new w info =
     (let this = nextRef w;
          obj = \<lparr>parent = None, children = [], targetId = ti_targetId info,
                 scriptName = ti_title info, attached = False,
                 waitingForDebugger = (ti_type info = ''waitingForDebugger'')\<rparr>;
          w1 = w\<lparr>heap := (heap w)(this := obj), nextRef := Suc this\<rparr>;
          opener = (case ti_openerId info of None \<Rightarrow> None | Some oid \<Rightarrow> targets w1 oid);
          w2 = setParent this opener w1
      in (this, w2\<lparr>targets := (targets w2)(ti_targetId info \<mapsto> this)\<rparr>))"

text \<open>
  \<^verbatim>\<open>this._children.forEach(child => child._setParent(this._parent))\<close>.
  \<^verbatim>\<open>forEach\<close> fixes the number of indices to visit when it starts, and at each index
  \<open>k\<close> calls the callback only if the array, as it is then, still has an element at
  \<open>k\<close>. The callback reads \<^verbatim>\<open>this._parent\<close> when it runs. \<open>n\<close> is the number of
  indices still to visit.
\<close>

fun forEach_child :: "ref \<Rightarrow> nat \<Rightarrow> nat \<Rightarrow> tree \<Rightarrow> tree" where
  "forEach_child this k 0 w = w"
| "forEach_child this k (Suc n) w =
     (let cs = children (heap w this)
      in if k < length cs
         then forEach_child this (Suc k) n (setParent (cs ! k) (parent (heap w this)) w)
         else forEach_child this (Suc k) n w)"

text \<open>\<^verbatim>\<open>_disconnected\<close>.\<close>

definition disconnected :: "ref \<Rightarrow> tree \<Rightarrow> tree" where
  "disconnected this w =
     (let w1 = forEach_child this 0 (length (children (heap w this))) w;
          w2 = setParent this None w1;
          w3 = w2\<lparr>targets := (targets w2)(targetId (heap w2 this) := None)\<rparr>
      in w3\<lparr>targetListChanged := Suc (targetListChanged w3)\<rparr>)"

text \<open>A launcher with no target yet; unallocated references hold a blank object.\<close>

definition blank :: NodeTarget where
  "blank = \<lparr>parent = None, children = [], targetId = [], scriptName = None,
            attached = False, waitingForDebugger = False\<rparr>"

definition emptyTree :: tree where
  "emptyTree = \<lparr>heap = (\<lambda>_. blank), nextRef = 0, targets = Map.empty, targetListChanged = 0\<rparr>"

text \<open>Targets created one after the other from a list of descriptors.\<close>

fun createTargets :: "TargetInfo list \<Rightarrow> tree \<Rightarrow> tree" where
  "createTargets [] w = w"
| "createTargets (i # is) w = createTargets is (snd (NodeTarget_new w i))"

section \<open>nodeDelegate.ts: the launcher\<close>

text \<open>
  What the hosting process gives the launcher: \<^verbatim>\<open>process.platform\<close>,
  \<^verbatim>\<open>os.tmpdir()\<close>, \<^verbatim>\<open>process.pid\<close>, \<^verbatim>\<open>process.env\<close> and \<^verbatim>\<open>__dirname\<close>,
  and Node's library function \<^verbatim>\<open>path.join\<close> on two arguments.
\<close>

record host =
  platform :: string
  tmpdir :: string
  pid :: nat
  processEnv :: "string \<rightharpoonup> string"
  dirname :: string
  pathJoin :: "string \<Rightarrow> string \<Rightarrow> string"

text \<open>
  The launch parameters arrive untyped (\<^verbatim>\<open>params: any\<close>): every property may be absent.
\<close>

record LaunchParams =
  command :: "string option"
  cwd :: "string option"
  env :: "(string \<rightharpoonup> string) option"
  attachToNode :: "string option"

text \<open>
  Promises of the launch blocker: \<^verbatim>\<open>Promise.resolve()\<close>, the promise that the
  breakpoints predictor returns for its \<open>i\<close>-th request, and \<^verbatim>\<open>Promise.all\<close> of two
  promises. A promise is pending, fulfilled or rejected, depending on the state of the
  predictor's promises.
\<close>

datatype promise = Resolved | Prediction nat | All promise promise

datatype pstate = Pending | Done | Failed

fun pstateOf :: "(nat \<Rightarrow> pstate) \<Rightarrow> promise \<Rightarrow> pstate" where
  "pstateOf ps Resolved = Done"
| "pstateOf ps (Prediction i) = ps i"
| "pstateOf ps (All a b) =
     (if pstateOf ps a = Failed \<or> pstateOf ps b = Failed then Failed
      else if pstateOf ps a = Done \<and> pstateOf ps b = Done then Done
      else Pending)"

text \<open>The predictor's promises a promise is built from.\<close>

fun predictions :: "promise \<Rightarrow> nat set" where
  "predictions Resolved = {}"
| "predictions (Prediction i) = {i}"
| "predictions (All a b) = predictions a \<union> predictions b"

text \<open>
  The launcher, together with the state of the process that its methods change: the
  module's \<^verbatim>\<open>counter\<close>, the installed exit watchers (by watched process id), the
  terminals created so far, and counts of the effects on the outside (servers closed,
  connections closed, terminals disposed, \<^verbatim>\<open>onTerminated\<close> fired). \<open>terminal\<close> holds
  the number of the current terminal, \<open>terminalEnv\<close> the environment it was created
  with, \<open>server\<close> the path the current server listens on.
\<close>

record launcher =
  rootPath :: "string option"
  server :: "string option"
  terminal :: "nat option"
  terminalEnv :: "string \<rightharpoonup> string option"
  connections :: "nat list"
  launchParams :: "LaunchParams option"
  pipe :: "string option"
  isRestarting :: bool
  launchBlocker :: promise
  breakpointsPredictor :: bool
  nextPrediction :: nat
  counter :: nat
  watchers :: "nat list"
  terminalsCreated :: nat
  terminalsDisposed :: "nat list"
  serversClosed :: "string list"
  connectionsClosed :: "nat list"
  terminatedFired :: nat

text \<open>The constructor; the module's counter starts at 0 when the module is loaded.\<close>

definition NodeLauncher_new :: "string option \<Rightarrow> nat \<Rightarrow> launcher" where
  "NodeLauncher_new root c =
     \<lparr>rootPath = root, server = None, terminal = None, terminalEnv = Map.empty,
      connections = [], launchParams = None, pipe = None, isRestarting = False,
      launchBlocker = Resolved,
      breakpointsPredictor = (case root of None \<Rightarrow> False | Some r \<Rightarrow> r \<noteq> []),
      nextPrediction = 0, counter = c, watchers = [], terminalsCreated = 0,
      terminalsDisposed = [], serversClosed = [], connectionsClosed = [],
      terminatedFired = 0\<rparr>"

subsection \<open>The transport endpoint\<close>

text \<open>
  A number in a template literal: for a non-negative integer below \<open>10\<^sup>2\<^sup>1\<close> its decimal
  digits.
\<close>

definition digitChar :: "nat \<Rightarrow> char" where
  "digitChar d = ''0123456789'' ! d"

function numberToString :: "nat \<Rightarrow> string" where
  "numberToString n =
     (if n < 10 then [digitChar n] else numberToString (n div 10) @ [digitChar (n mod 10)])"
  by pat_completeness auto
termination
  by (relation "measure id") auto

declare numberToString.simps [simp del]

text \<open>
  \<^verbatim>\<open>++counter\<close>. The counter is a JavaScript number, a double: it counts exactly up to
  \<open>2\<^sup>5\<^sup>3\<close>, where adding one rounds back to \<open>2\<^sup>5\<^sup>3\<close>.
\<close>

definition increment :: "nat \<Rightarrow> nat" where
  "increment c = (if c < 2 ^ 53 then c + 1 else c)"

definition pipePrefix :: "host \<Rightarrow> string" where
  "pipePrefix h =
     (if platform h = ''win32''
      then [CHR 0x5C, CHR 0x5C, CHR ''.'', CHR 0x5C] @ ''pipe'' @ [CHR 0x5C]
      else tmpdir h)"

definition pipeName :: "nat \<Rightarrow> nat \<Rightarrow> string" where
  "pipeName p c = ''node-cdp.'' @ numberToString p @ ''-'' @ numberToString c @ ''.sock''"

text \<open>\<^verbatim>\<open>_startServer\<close>: a new path from the incremented counter, and a server listening
  on it.\<close>

definition startServer :: "host \<Rightarrow> launcher \<Rightarrow> launcher" where
  "startServer h l =
     (let c = increment (counter l);
          p = pathJoin h (pipePrefix h) (pipeName (pid h) c)
      in l\<lparr>counter := c, pipe := Some p, server := Some p\<rparr>)"

text \<open>\<open>n\<close> invocations of \<^verbatim>\<open>_startServer\<close> one after the other, with the path each one
  produced.\<close>

fun startServers :: "host \<Rightarrow> nat \<Rightarrow> launcher \<Rightarrow> string list \<times> launcher" where
  "startServers h 0 l = ([], l)"
| "startServers h (Suc n) l =
     (let l1 = startServer h l; (ps, l2) = startServers h n l1
      in (case pipe l1 of Some p \<Rightarrow> (p # ps, l2) | None \<Rightarrow> (ps, l2)))"

text \<open>
  A file name that \<^verbatim>\<open>path.join\<close> keeps as the last segment of its result: not empty,
  not \<^verbatim>\<open>.\<close> or \<^verbatim>\<open>..\<close>, and without a separator.
\<close>

definition plainName :: "string \<Rightarrow> bool" where
  "plainName n = (n \<noteq> [] \<and> n \<noteq> ''.'' \<and> n \<noteq> ''..''
                  \<and> CHR ''/'' \<notin> set n \<and> CHR 0x5C \<notin> set n)"

subsection \<open>Stopping, killing, the environment\<close>

text \<open>\<^verbatim>\<open>_stopServer\<close>.\<close>

definition stopServer :: "launcher \<Rightarrow> launcher" where
  "stopServer l =
     (let l1 = (case server l of
                  Some p \<Rightarrow> l\<lparr>serversClosed := serversClosed l @ [p]\<rparr>
                | None \<Rightarrow> l);
          l2 = l1\<lparr>server := None\<rparr>;
          l3 = l2\<lparr>connectionsClosed := connectionsClosed l2 @ connections l2\<rparr>
      in l3\<lparr>connections := []\<rparr>)"

text \<open>\<^verbatim>\<open>_killRuntime\<close>.\<close>

definition killRuntime :: "launcher \<Rightarrow> launcher" where
  "killRuntime l =
     (case terminal l of
        None \<Rightarrow> l
      | Some t \<Rightarrow> l\<lparr>terminalsDisposed := terminalsDisposed l @ [t], terminal := None\<rparr>)"

text \<open>
  \<^verbatim>\<open>_buildEnv\<close>, for the launch parameters \<^verbatim>\<open>this._launchParams!\<close>. A property of
  the result holds a string or \<^verbatim>\<open>undefined\<close> (\<open>None\<close>), which is what
  \<^verbatim>\<open>this._pipe\<close> is before the first \<^verbatim>\<open>_startServer\<close>. The operator \<^verbatim>\<open>||\<close>
  takes its right operand when the left one is absent or the empty string.
\<close>

definition orElse :: "string option \<Rightarrow> string \<Rightarrow> string" where
  "orElse v d = (case v of None \<Rightarrow> d | Some x \<Rightarrow> if x = [] then d else x)"

definition buildEnv :: "host \<Rightarrow> launcher \<Rightarrow> LaunchParams \<Rightarrow> (string \<rightharpoonup> string option)" where
  "buildEnv h l lp =
     (let bootloaderJS = pathJoin h (dirname h) ''bootloader.js'';
          spread1 = map_option Some \<circ> processEnv h;
          spread2 = spread1 ++ (case env lp of None \<Rightarrow> Map.empty
                                 | Some e \<Rightarrow> map_option Some \<circ> e);
          result = spread2(
            ''NODE_INSPECTOR_IPC'' \<mapsto> pipe l,
            ''NODE_INSPECTOR_WAIT_FOR_DEBUGGER'' \<mapsto> Some (orElse (attachToNode lp) ''never''),
            ''NODE_OPTIONS'' \<mapsto>
               Some (orElse (processEnv h ''NODE_OPTIONS'') [] @ '' --require '' @ bootloaderJS))
      in result(''ELECTRON_RUN_AS_NODE'' := None))"

subsection \<open>Launch, relaunch, restart and the exit watcher\<close>

text \<open>
  An \<^verbatim>\<open>async\<close> method runs without interruption up to an \<^verbatim>\<open>await\<close> of something
  that the outside settles; timers and other calls run only at those points. Each such
  method is therefore a sequence of steps, one per stretch of uninterrupted code. Reading
  a property of \<^verbatim>\<open>undefined\<close> throws a \<^verbatim>\<open>TypeError\<close>, which rejects the method's
  promise and skips the rest of the method.
\<close>

datatype error = TypeError

definition andThen :: "error + 'a \<Rightarrow> ('a \<Rightarrow> error + 'b) \<Rightarrow> error + 'b" where
  "andThen r f = (case r of Inl e \<Rightarrow> Inl e | Inr x \<Rightarrow> f x)"

text \<open>
  \<^verbatim>\<open>_relaunch\<close> up to \<^verbatim>\<open>await this._terminal.processId\<close>: the old terminal is
  disposed and a new one is created with the built environment.
\<close>

definition relaunch_begin :: "host \<Rightarrow> launcher \<Rightarrow> error + launcher" where
  "relaunch_begin h l =
     (let l1 = killRuntime l
      in case launchParams l1 of
           None \<Rightarrow> Inl TypeError
         | Some lp \<Rightarrow>
             Inr (l1\<lparr>terminal := Some (terminalsCreated l1),
                     terminalEnv := buildEnv h l1 lp,
                     terminalsCreated := Suc (terminalsCreated l1)\<rparr>))"

text \<open>
  \<^verbatim>\<open>_relaunch\<close> from the moment the terminal has reported the process id \<open>p\<close>:
  \<^verbatim>\<open>onProcessExit\<close> installs a watcher of \<open>p\<close>. Showing the terminal and sending it
  the command line change nothing the launcher reads.
\<close>

definition relaunch_resume :: "nat \<Rightarrow> launcher \<Rightarrow> error + launcher" where
  "relaunch_resume p l =
     (case terminal l of
        None \<Rightarrow> Inl TypeError
      | Some t \<Rightarrow> Inr (l\<lparr>watchers := watchers l @ [p]\<rparr>))"

text \<open>
  \<^verbatim>\<open>launch\<close>. Its first step returns at once when the parameters have no
  \<^verbatim>\<open>command\<close> property, and otherwise waits for the promise that
  \<^verbatim>\<open>_launchBlocker\<close> holds at that moment.
\<close>

datatype launchStep = Returned | Waits promise

definition launch_begin :: "LaunchParams \<Rightarrow> launcher \<Rightarrow> launchStep" where
  "launch_begin params l =
     (if command params = None then Returned else Waits (launchBlocker l))"

text \<open>
  Where a launch call stands once the predictor's promises are in the states \<open>ps\<close>: a
  pending call is still before \<^verbatim>\<open>this._launchParams = params\<close>, a failed one has
  thrown out of the \<^verbatim>\<open>await\<close>.
\<close>

fun launch_await :: "(nat \<Rightarrow> pstate) \<Rightarrow> launchStep \<Rightarrow> pstate" where
  "launch_await ps Returned = Done"
| "launch_await ps (Waits b) = pstateOf ps b"

text \<open>\<^verbatim>\<open>launch\<close> from the moment the awaited blocker is fulfilled, up to the
  \<^verbatim>\<open>await\<close> inside \<^verbatim>\<open>_relaunch\<close>.\<close>

definition launch_resume :: "host \<Rightarrow> LaunchParams \<Rightarrow> launcher \<Rightarrow> error + launcher" where
  "launch_resume h params l =
     relaunch_begin h (startServer h (l\<lparr>launchParams := Some params\<rparr>))"

text \<open>
  One turn of a \<^verbatim>\<open>launch\<close> call that began as \<open>st\<close>, taken when the predictor's
  promises are in the states \<open>ps\<close> and the launcher is \<open>l\<close>. A call that returned at
  the guard does nothing. A call at \<^verbatim>\<open>await this._launchBlocker\<close> stays there while
  the awaited promise is pending, throws out of \<^verbatim>\<open>launch\<close> when it is rejected, and
  runs the rest of \<^verbatim>\<open>launch\<close> when it is fulfilled. The launcher is changed in the
  last case only.
\<close>

datatype launchProgress =
  NoOp launcher | StillWaiting launcher | BlockerRejected launcher | Resumed "error + launcher"

definition launch_turn ::
  "host \<Rightarrow> (nat \<Rightarrow> pstate) \<Rightarrow> LaunchParams \<Rightarrow> launchStep \<Rightarrow> launcher \<Rightarrow> launchProgress" where
  "launch_turn h ps params st l =
     (case st of
        Returned \<Rightarrow> NoOp l
      | Waits b \<Rightarrow>
          (case pstateOf ps b of
             Pending \<Rightarrow> StillWaiting l
           | Failed \<Rightarrow> BlockerRejected l
           | Done \<Rightarrow> Resumed (launch_resume h params l)))"

text \<open>
  \<^verbatim>\<open>predictBreakpoints\<close>: returns the promise handed to the caller. The predictor's
  \<^verbatim>\<open>onSetBreakpoints\<close> returns a new promise on each request.
\<close>

definition predictBreakpoints :: "launcher \<Rightarrow> promise \<times> launcher" where
  "predictBreakpoints l =
     (if \<not> breakpointsPredictor l then (Resolved, l)
      else (let promise = Prediction (nextPrediction l)
            in (promise, l\<lparr>launchBlocker := All (launchBlocker l) promise,
                            nextPrediction := Suc (nextPrediction l)\<rparr>)))"

text \<open>\<open>n\<close> prediction requests one after the other.\<close>

fun predictMany :: "nat \<Rightarrow> launcher \<Rightarrow> launcher" where
  "predictMany 0 l = l"
| "predictMany (Suc n) l = predictMany n (snd (predictBreakpoints l))"

text \<open>
  \<^verbatim>\<open>restart\<close> up to the \<^verbatim>\<open>await\<close> inside \<^verbatim>\<open>_relaunch\<close>, and from the reported
  process id to its end.
\<close>

definition restart_begin :: "host \<Rightarrow> launcher \<Rightarrow> error + launcher" where
  "restart_begin h l =
     relaunch_begin h (startServer h (stopServer (killRuntime (l\<lparr>isRestarting := True\<rparr>))))"

definition restart_resume :: "nat \<Rightarrow> launcher \<Rightarrow> error + launcher" where
  "restart_resume p l =
     andThen (relaunch_resume p l) (\<lambda>l1. Inr (l1\<lparr>isRestarting := False\<rparr>))"

text \<open>The callback that \<^verbatim>\<open>_relaunch\<close> passes to \<^verbatim>\<open>onProcessExit\<close>.\<close>

definition exitCallback :: "launcher \<Rightarrow> launcher" where
  "exitCallback l =
     (if \<not> isRestarting l
      then (let l1 = stopServer l in l1\<lparr>terminatedFired := Suc (terminatedFired l1)\<rparr>)
      else l)"

text \<open>
  One tick of the watcher of process \<open>p\<close> with the probe's result; a watcher that is not
  installed does not tick.
\<close>

definition watcherTick :: "nat \<Rightarrow> probe \<Rightarrow> launcher \<Rightarrow> launcher" where
  "watcherTick p r l =
     (if p \<in> set (watchers l)
      then (let (installed, l1) = onProcessExit_tick exitCallback r (True, l)
            in if installed then l1 else l1\<lparr>watchers := remove1 p (watchers l1)\<rparr>)
      else l)"

section \<open>nodeDelegate.ts: attach and detach\<close>

text \<open>
  \<^verbatim>\<open>attach\<close> and \<^verbatim>\<open>detach\<close> chain a callback onto the promise \<^verbatim>\<open>_serialize\<close>
  with \<^verbatim>\<open>then\<close>. The chain is modelled by its front, the state of the last link whose
  callback has been started (at first \<^verbatim>\<open>Promise.resolve(undefined)\<close>), and the queue
  of the links behind it, whose callbacks have not run. A link is fulfilled or rejected
  with the promise its callback returns; a link behind a rejected link is rejected with
  the same error and its callback never runs.
\<close>

datatype jsvalue = CdpApi | Undefined

datatype settled = Fulfilled jsvalue | Rejected string

datatype remote = AttachToTarget | DetachFromTarget

datatype operation = Attach | Detach

datatype reply = Ok | Error string

text \<open>
  \<open>Awaiting i c\<close>: the front link is the one of the \<^verbatim>\<open>attach\<close> call \<open>c\<close>, and its
  callback is at \<^verbatim>\<open>await this._cdp.Target.attachToTarget\<close>, remote call number \<open>i\<close>.
\<close>

datatype front = Settled settled | Awaiting nat nat

text \<open>
  A target with its chain: the remote calls in flight (numbered in the order of issue),
  all remote calls issued so far, the state of the promise returned to each
  \<^verbatim>\<open>attach\<close> or \<^verbatim>\<open>detach\<close> call that has settled (calls are numbered by the
  caller), and how many times the execution context listeners were registered.
\<close>

record session =
  target :: NodeTarget
  serialize :: front
  queue :: "(operation \<times> nat) list"
  inflight :: "(nat \<times> remote) list"
  issued :: "remote list"
  returned :: "nat \<rightharpoonup> settled"
  listeners :: nat

text \<open>
  \<^verbatim>\<open>attach()\<close> and \<^verbatim>\<open>detach()\<close>, the synchronous part. \<^verbatim>\<open>attach\<close> returns
  \<^verbatim>\<open>_serialize\<close>, so its promise settles with the link; \<^verbatim>\<open>detach\<close> returns
  nothing, so its promise is fulfilled with \<^verbatim>\<open>undefined\<close> at once.
\<close>

definition attach :: "nat \<Rightarrow> session \<Rightarrow> session" where
  "attach c s = s\<lparr>queue := queue s @ [(Attach, c)]\<rparr>"

definition detach :: "nat \<Rightarrow> session \<Rightarrow> session" where
  "detach c s = s\<lparr>queue := queue s @ [(Detach, c)],
                   returned := (returned s)(c \<mapsto> Fulfilled Undefined)\<rparr>"

text \<open>\<^verbatim>\<open>_doAttach\<close> up to its \<^verbatim>\<open>await\<close>: both flags are written, then the remote
  call is issued.\<close>

definition doAttach_begin :: "nat \<Rightarrow> session \<Rightarrow> session" where
  "doAttach_begin c s =
     (let s1 = s\<lparr>target := (target s)\<lparr>waitingForDebugger := False\<rparr>\<rparr>;
          s2 = s1\<lparr>target := (target s1)\<lparr>attached := True\<rparr>\<rparr>;
          i = length (issued s2)
      in s2\<lparr>inflight := inflight s2 @ [(i, AttachToTarget)],
             issued := issued s2 @ [AttachToTarget],
             serialize := Awaiting i c\<rparr>)"

text \<open>\<^verbatim>\<open>_doDetach\<close> up to its \<^verbatim>\<open>await\<close>: the remote call is issued.\<close>

definition doDetach_begin :: "session \<Rightarrow> session" where
  "doDetach_begin s =
     (let i = length (issued s)
      in s\<lparr>inflight := inflight s @ [(i, DetachFromTarget)],
            issued := issued s @ [DetachFromTarget]\<rparr>)"

text \<open>
  The callbacks of the two links. The one of \<^verbatim>\<open>attach\<close> returns the promise of
  \<^verbatim>\<open>_doAttach\<close>, so the link stays pending until the remote call settles. The one of
  \<^verbatim>\<open>detach\<close> calls \<^verbatim>\<open>_doDetach\<close> and returns without its promise, so the link is
  fulfilled as soon as the remote call has been issued.
\<close>

fun linkCallback :: "operation \<times> nat \<Rightarrow> session \<Rightarrow> session" where
  "linkCallback (Attach, c) s =
     (if attached (target s)
      then s\<lparr>serialize := Settled (Fulfilled Undefined),
              returned := (returned s)(c \<mapsto> Fulfilled Undefined)\<rparr>
      else doAttach_begin c s)"
| "linkCallback (Detach, c) s =
     (if \<not> attached (target s)
      then s\<lparr>serialize := Settled (Fulfilled Undefined)\<rparr>
      else (doDetach_begin s)\<lparr>serialize := Settled (Fulfilled Undefined)\<rparr>)"

text \<open>A link behind a settled front: \<^verbatim>\<open>then\<close> runs the callback after a
  fulfilled promise and passes a rejection on.\<close>

fun thenLink :: "settled \<Rightarrow> operation \<times> nat \<Rightarrow> session \<Rightarrow> session" where
  "thenLink (Fulfilled v) x s = linkCallback x s"
| "thenLink (Rejected e) (Attach, c) s = s\<lparr>returned := (returned s)(c \<mapsto> Rejected e)\<rparr>"
| "thenLink (Rejected e) (Detach, c) s = s"

text \<open>
  The microtasks: links run in the order of the queue for as long as the front is
  settled.
\<close>

fun runLinks :: "(operation \<times> nat) list \<Rightarrow> session \<Rightarrow> session" where
  "runLinks [] s = s\<lparr>queue := []\<rparr>"
| "runLinks (x # xs) s =
     (case serialize s of
        Awaiting i c \<Rightarrow> s\<lparr>queue := x # xs\<rparr>
      | Settled r \<Rightarrow> runLinks xs (thenLink r x s))"

definition runMicrotasks :: "session \<Rightarrow> session" where
  "runMicrotasks s = runLinks (queue s) s"

text \<open>
  The remote call number \<open>i\<close> settles. For \<^verbatim>\<open>attachToTarget\<close> the rest of
  \<^verbatim>\<open>_doAttach\<close> runs (the listeners are registered and the handle is returned) or
  its promise is rejected; for \<^verbatim>\<open>detachFromTarget\<close> the rest of \<^verbatim>\<open>_doDetach\<close>
  clears the flag, or its promise, which nobody holds, is rejected. The microtasks run
  afterwards.
\<close>

definition settleRemote :: "nat \<Rightarrow> reply \<Rightarrow> session \<Rightarrow> session" where
  "settleRemote i r s =
     (case map_of (inflight s) i of
        None \<Rightarrow> s
      | Some AttachToTarget \<Rightarrow>
          (let s1 = s\<lparr>inflight := filter (\<lambda>x. fst x \<noteq> i) (inflight s)\<rparr>
           in case serialize s1 of
                Settled x \<Rightarrow> s1
              | Awaiting j c \<Rightarrow>
                  (case r of
                     Ok \<Rightarrow> s1\<lparr>listeners := Suc (listeners s1),
                                serialize := Settled (Fulfilled CdpApi),
                                returned := (returned s1)(c \<mapsto> Fulfilled CdpApi)\<rparr>
                   | Error e \<Rightarrow> s1\<lparr>serialize := Settled (Rejected e),
                                     returned := (returned s1)(c \<mapsto> Rejected e)\<rparr>))
      | Some DetachFromTarget \<Rightarrow>
          (let s1 = s\<lparr>inflight := filter (\<lambda>x. fst x \<noteq> i) (inflight s)\<rparr>
           in case r of
                Ok \<Rightarrow> s1\<lparr>target := (target s1)\<lparr>attached := False\<rparr>\<rparr>
              | Error e \<Rightarrow> s1))"

definition remoteSettles :: "nat \<Rightarrow> reply \<Rightarrow> session \<Rightarrow> session" where
  "remoteSettles i r s = runMicrotasks (settleRemote i r s)"

text \<open>The session of a target that has just been constructed.\<close>

definition newSession :: "NodeTarget \<Rightarrow> session" where
  "newSession t = \<lparr>target = t, serialize = Settled (Fulfilled Undefined), queue = [],
                    inflight = [], issued = [], returned = Map.empty, listeners = 0\<rparr>"

text \<open>\<^verbatim>\<open>canAttach\<close>.\<close>

definition canAttach :: "NodeTarget \<Rightarrow> bool" where
  "canAttach t = (\<not> attached t)"

section \<open>Example inputs\<close>

text \<open>A target that was created paused and is neither attached nor in the tree.\<close>

definition pausedTarget :: NodeTarget where
  "pausedTarget = \<lparr>parent = None, children = [], targetId = ''7'', scriptName = None,
                    attached = False, waitingForDebugger = True\<rparr>"

text \<open>
  A hosting process on Linux with an empty environment; its \<^verbatim>\<open>path.join\<close> puts a
  slash between a directory without a trailing slash and a plain file name.
\<close>

definition exampleHost :: host where
  "exampleHost = \<lparr>platform = ''linux'', tmpdir = ''/tmp'', pid = 42,
                   processEnv = Map.empty, dirname = ''/ext'',
                   pathJoin = (\<lambda>a b. a @ ''/'' @ b)\<rparr>"

text \<open>Launch parameters whose environment sets \<^verbatim>\<open>NODE_OPTIONS\<close>.\<close>

definition exampleParams :: LaunchParams where
  "exampleParams = \<lparr>command = Some ''node app.js'', cwd = None,
                     env = Some [''NODE_OPTIONS'' \<mapsto> ''--inspect''],
                     attachToNode = Some ''always''\<rparr>"

text \<open>A target descriptor with an identifier and an optional opener.\<close>

definition descriptor :: "string \<Rightarrow> string option \<Rightarrow> TargetInfo" where
  "descriptor i opn =
     \<lparr>ti_targetId = i, ti_title = None, ti_openerId = opn, ti_type = ''node''\<rparr>"

text \<open>A root \<open>R\<close> (reference 0), its child \<open>A\<close> (1), and two children \<open>B1\<close> (2) and
  \<open>B2\<close> (3) of \<open>A\<close>, created in this order.\<close>

definition familyTree :: tree where
  "familyTree = createTargets
     [descriptor ''R'' None, descriptor ''A'' (Some ''R''),
      descriptor ''B1'' (Some ''A''), descriptor ''B2'' (Some ''A'')] emptyTree"

section \<open>The process watcher: probe tolerance\<close>

lemma onProcessExit_run_cleared:
  "onProcessExit_run callback rs (False, s) = (False, s)"
  by (cases rs) simp_all

lemma onProcessExit_run_installed:
  "onProcessExit_run callback rs (True, s) =
     (if list_ex fatal rs then (False, callback s) else (True, s))"
proof (induction rs)
  case Nil
  show ?case by simp
next
  case (Cons r rs)
  show ?case
  proof (cases r)
    case Returns
    with Cons show ?thesis by (simp add: onProcessExit_tick_def)
  next
    case (Throws code)
    with Cons show ?thesis
      by (simp add: onProcessExit_tick_def onProcessExit_run_cleared)
  qed
qed

text \<open>
  Claim C9. The probe runs every 1000 ms. With the callback counting its own calls: a
  probe that returns changes nothing; a probe that throws EPERM changes nothing and
  leaves the interval installed; a probe that throws any other code calls the callback
  once and clears the interval; and over any sequence of probe results the callback has
  been called exactly once if some probe threw a code other than EPERM, and never
  otherwise, the interval being installed afterwards exactly in the second case.
\<close>

theorem probe_tolerance:
  "probeInterval = 1000
   \<and> onProcessExit_tick Suc Returns (True, n) = (True, n)
   \<and> onProcessExit_tick Suc (Throws ''EPERM'') (True, n) = (True, n)
   \<and> (if code = ''EPERM'' then onProcessExit_tick Suc (Throws code) (True, n) = (True, n)
      else onProcessExit_tick Suc (Throws code) (True, n) = (False, Suc n))
   \<and> onProcessExit Suc rs 0 = (if list_ex fatal rs then (False, 1) else (True, 0))"
  by (simp add: probeInterval_def onProcessExit_tick_def onProcessExit_def
      onProcessExit_run_installed)

section \<open>The target tree: construction and disconnection\<close>

text \<open>
  Claim C10. A target constructed from a descriptor whose opener identifier is present
  but is no key of \<^verbatim>\<open>_targets\<close> is constructed exactly as from the same descriptor
  without an opener: its parent is undefined, \<^verbatim>\<open>hasParent\<close> is false, every other
  object of the store (its children among the rest) is as it was, and the new target is
  registered under its identifier.
\<close>

theorem unknown_opener_is_root:
  assumes "ti_openerId info = Some oid" and "targets w oid = None"
  shows "NodeTarget_new w info = NodeTarget_new w (info\<lparr>ti_openerId := None\<rparr>)
         \<and> (case NodeTarget_new w info of (this, w') \<Rightarrow>
               parent (heap w' this) = None \<and> \<not> hasParent (heap w' this)
               \<and> (\<forall>r. r \<noteq> this \<longrightarrow> heap w' r = heap w r)
               \<and> targets w' (ti_targetId info) = Some this)"
  using assms by (simp add: NodeTarget_new_def setParent_def hasParent_def Let_def)

theorem unknown_opener_is_root_witness:
  "ti_openerId (descriptor ''2'' (Some ''9'')) = Some ''9''
   \<and> targets (createTargets [descriptor ''1'' None] emptyTree) ''9'' = None
   \<and> (case NodeTarget_new (createTargets [descriptor ''1'' None] emptyTree)
              (descriptor ''2'' (Some ''9'')) of (this, w') \<Rightarrow>
         this = 1 \<and> parent (heap w' this) = None \<and> \<not> hasParent (heap w' this)
         \<and> children (heap w' 0) = [] \<and> targets w' ''2'' = Some 1)"
proof -
  let ?w = "createTargets [descriptor ''1'' None] emptyTree"
  let ?i = "descriptor ''2'' (Some ''9'')"
  have a: "ti_openerId ?i = Some ''9''" by (simp add: descriptor_def)
  have b: "targets ?w ''9'' = None"
    by (simp add: descriptor_def emptyTree_def NodeTarget_new_def setParent_def Let_def)
  have c: "nextRef ?w = 1" "children (heap ?w 0) = []"
    by (simp_all add: descriptor_def emptyTree_def NodeTarget_new_def setParent_def Let_def)
  have d: "fst (NodeTarget_new ?w ?i) = 1" using c by (simp add: NodeTarget_new_def Let_def)
  show ?thesis using unknown_opener_is_root [OF a b] a b c d
    by (auto simp: split_def descriptor_def)
qed

text \<open>
  With a single child the loop visits it: in the tree of a root \<open>R\<close>, its child \<open>A\<close>
  and the one child \<open>B\<close> of \<open>A\<close>, the disconnection of \<open>A\<close> makes \<open>R\<close> the parent of
  \<open>B\<close>.
\<close>

lemma disconnected_single_child:
  "(let w = disconnected 1 (createTargets
               [descriptor ''R'' None, descriptor ''A'' (Some ''R''),
                descriptor ''B'' (Some ''A'')] emptyTree)
    in parent (heap w 2) = Some 0 \<and> children (heap w 0) = [2]
       \<and> parent (heap w 1) = None \<and> children (heap w 1) = []
       \<and> targets w ''A'' = None \<and> targetListChanged w = 1)"
  by (simp add: descriptor_def emptyTree_def NodeTarget_new_def setParent_def
      disconnected_def splice1_def blank_def Let_def)

text \<open>
  Claim C3, on the tree \<open>familyTree\<close> when \<open>A\<close> disconnects. Before, both \<open>B1\<close> and
  \<open>B2\<close> are children of \<open>A\<close>. Afterwards \<open>B1\<close> has the parent \<open>R\<close> and is the child
  of \<open>R\<close>, and \<open>A\<close> is gone from \<^verbatim>\<open>_targets\<close> and has no parent; but \<open>B2\<close> was
  never visited: moving \<open>B1\<close> shortened the array that \<^verbatim>\<open>forEach\<close> walks, so \<open>B2\<close>
  still has the parent \<open>A\<close>, is still in the children of \<open>A\<close>, and is not a child of
  \<open>R\<close>.
\<close>

theorem disconnected_skips_second_child:
  "children (heap familyTree 1) = [2, 3]
   \<and> parent (heap familyTree 1) = Some 0
   \<and> (let w = disconnected 1 familyTree
      in parent (heap w 2) = Some 0 \<and> children (heap w 0) = [2]
         \<and> parent (heap w 1) = None \<and> targets w ''A'' = None
         \<and> parent (heap w 3) = Some 1 \<and> children (heap w 1) = [3]
         \<and> targets w ''B2'' = Some 3)"
  by (simp add: descriptor_def emptyTree_def NodeTarget_new_def setParent_def
      disconnected_def splice1_def blank_def familyTree_def Let_def)

section \<open>Attach and detach: the serialization chain\<close>

text \<open>
  Claim C1, on a new paused target whose remote attach call fails with \<open>boom\<close>. The
  failure reaches the caller of that \<^verbatim>\<open>attach\<close> (call 1). The flags do not keep their
  values: \<^verbatim>\<open>_doAttach\<close> wrote them before the remote call, so the target is left
  attached and no longer waiting for the debugger, and \<^verbatim>\<open>canAttach\<close> is false. A
  second \<^verbatim>\<open>attach\<close> (call 2) does not retry: the chain is rejected, the call is
  rejected with the old error and no second remote call is issued.
\<close>

theorem attach_failure_leaves_attached:
  "(let s = remoteSettles 0 (Error ''boom'') (runMicrotasks (attach 1 (newSession pausedTarget)));
        s' = runMicrotasks (attach 2 s)
    in returned s 1 = Some (Rejected ''boom'')
       \<and> attached (target s) \<and> \<not> waitingForDebugger (target s) \<and> \<not> canAttach (target s)
       \<and> returned s' 2 = Some (Rejected ''boom'') \<and> issued s' = [AttachToTarget])"
  by (simp add: newSession_def attach_def runMicrotasks_def remoteSettles_def settleRemote_def
      doAttach_begin_def canAttach_def pausedTarget_def Let_def)

text \<open>
  Claim C2, on a target that has been attached (call 1). Two \<^verbatim>\<open>detach\<close> calls (2 and
  3) put two remote detach calls in flight at the same time: the link of the first is
  fulfilled once its remote call is issued, not once it completes. And an \<^verbatim>\<open>attach\<close>
  (call 3) enqueued behind a \<^verbatim>\<open>detach\<close> (call 2) runs while the remote detach call
  is in flight, still reads the flag as attached, and resolves to \<^verbatim>\<open>undefined\<close>
  without a remote call; when the remote detach call completes, the target is detached
  although the last operation enqueued was the attach.
\<close>

theorem detach_not_serialized:
  "(let s = remoteSettles 0 Ok (runMicrotasks (attach 1 (newSession pausedTarget)));
        s2 = runMicrotasks (detach 3 (detach 2 s));
        s3 = runMicrotasks (attach 3 (detach 2 s))
    in inflight s = [] \<and> attached (target s)
       \<and> inflight s2 = [(1, DetachFromTarget), (2, DetachFromTarget)]
       \<and> inflight s3 = [(1, DetachFromTarget)]
       \<and> returned s3 3 = Some (Fulfilled Undefined)
       \<and> issued s3 = [AttachToTarget, DetachFromTarget]
       \<and> \<not> attached (target (remoteSettles 1 Ok s3)))"
  by (simp add: newSession_def attach_def detach_def runMicrotasks_def remoteSettles_def
      settleRemote_def doAttach_begin_def doDetach_begin_def pausedTarget_def Let_def)

text \<open>
  Two \<^verbatim>\<open>attach\<close> calls (1 and 2) on a new target, the remote attach call succeeding:
  the promises of the two calls do not settle to the same outcome.
\<close>

theorem concurrent_attach_outcomes_differ:
  "\<not> (let s = remoteSettles 0 Ok (runMicrotasks (attach 2 (attach 1 (newSession pausedTarget))))
      in returned s 1 = returned s 2)"
  by (simp add: newSession_def attach_def runMicrotasks_def remoteSettles_def settleRemote_def
      doAttach_begin_def pausedTarget_def Let_def)

text \<open>
  Claim C6, as amended. For every target that is not attached, with a fulfilled chain,
  nothing queued and no remote call in flight: two \<^verbatim>\<open>attach\<close> calls \<open>a\<close> and \<open>b\<close>,
  whether the second is made before or after the first one's callback has started, issue
  the remote attach call exactly once; when that call succeeds, the first call resolves
  to the protocol handle and the second to \<^verbatim>\<open>undefined\<close>, and the target is attached
  with nothing left queued or in flight.
\<close>

theorem concurrent_attach_once:
  assumes "\<not> attached (target s)" and "serialize s = Settled (Fulfilled v)"
    and "queue s = []" and "inflight s = []" and "a \<noteq> b"
  shows "(let s1 = remoteSettles (length (issued s)) Ok (runMicrotasks (attach b (attach a s)));
              s2 = remoteSettles (length (issued s)) Ok
                     (runMicrotasks (attach b (runMicrotasks (attach a s))))
          in issued s1 = issued s @ [AttachToTarget]
             \<and> returned s1 a = Some (Fulfilled CdpApi)
             \<and> returned s1 b = Some (Fulfilled Undefined)
             \<and> attached (target s1) \<and> inflight s1 = [] \<and> queue s1 = []
             \<and> s2 = s1)"
  using assms
  by (simp add: attach_def runMicrotasks_def remoteSettles_def settleRemote_def
      doAttach_begin_def Let_def)

theorem concurrent_attach_once_witness:
  "\<not> attached (target (newSession pausedTarget))
   \<and> (let s1 = remoteSettles 0 Ok (runMicrotasks (attach 2 (attach 1 (newSession pausedTarget))))
      in issued s1 = [AttachToTarget]
         \<and> returned s1 1 = Some (Fulfilled CdpApi)
         \<and> returned s1 2 = Some (Fulfilled Undefined))"
proof -
  let ?s = "newSession pausedTarget"
  have h: "\<not> attached (target ?s)" "serialize ?s = Settled (Fulfilled Undefined)"
    "queue ?s = []" "inflight ?s = []" "(1::nat) \<noteq> 2"
    by (simp_all add: newSession_def pausedTarget_def)
  have i: "issued ?s = []" by (simp add: newSession_def)
  from concurrent_attach_once [OF h] h(1) i show ?thesis by (simp add: Let_def)
qed

section \<open>The launcher: endpoint paths\<close>

lemma digitChar_cases:
  "d < 10 \<Longrightarrow>
   d = 0 \<or> d = 1 \<or> d = 2 \<or> d = 3 \<or> d = 4 \<or> d = 5 \<or> d = 6 \<or> d = 7 \<or> d = 8 \<or> d = (9::nat)"
  by arith

lemma digitChar_digit: "d < 10 \<Longrightarrow> digitChar d \<in> set ''0123456789''"
  using digitChar_cases [of d] by (auto simp: digitChar_def)

lemma digitChar_inj: "d < 10 \<Longrightarrow> e < 10 \<Longrightarrow> digitChar d = digitChar e \<Longrightarrow> d = e"
  using digitChar_cases [of d] digitChar_cases [of e] by (auto simp: digitChar_def)

lemma numberToString_small: "n < 10 \<Longrightarrow> numberToString n = [digitChar n]"
  by (subst numberToString.simps) simp

lemma numberToString_large:
  "\<not> n < 10 \<Longrightarrow> numberToString n = numberToString (n div 10) @ [digitChar (n mod 10)]"
  by (subst numberToString.simps) simp

lemma numberToString_nonempty: "numberToString n \<noteq> []"
  by (cases "n < 10") (simp_all add: numberToString_small numberToString_large)

lemma numberToString_digits: "set (numberToString n) \<subseteq> set ''0123456789''"
proof (induction n rule: numberToString.induct)
  case (1 n)
  show ?case
  proof (cases "n < 10")
    case True
    then show ?thesis using digitChar_digit [of n] by (simp add: numberToString_small)
  next
    case False
    have "n mod 10 < 10" by simp
    then have "digitChar (n mod 10) \<in> set ''0123456789''" by (rule digitChar_digit)
    with False 1 show ?thesis by (simp add: numberToString_large)
  qed
qed

text \<open>Different numbers have different decimal strings.\<close>

lemma numberToString_inj: "numberToString n = numberToString m \<Longrightarrow> n = m"
proof (induction n arbitrary: m rule: numberToString.induct)
  case (1 n)
  show ?case
  proof (cases "n < 10")
    case True
    show ?thesis
    proof (cases "m < 10")
      case True
      with \<open>n < 10\<close> 1(2) show ?thesis
        by (simp add: numberToString_small digitChar_inj)
    next
      case False
      with \<open>n < 10\<close> 1(2) numberToString_nonempty [of "m div 10"] show ?thesis
        by (simp add: numberToString_small numberToString_large)
    qed
  next
    case False
    show ?thesis
    proof (cases "m < 10")
      case True
      with False 1(2) numberToString_nonempty [of "n div 10"] show ?thesis
        by (simp add: numberToString_small numberToString_large)
    next
      case mbig: False
      from False mbig 1(2)
      have e: "numberToString (n div 10) = numberToString (m div 10)"
        and d: "digitChar (n mod 10) = digitChar (m mod 10)"
        by (simp_all add: numberToString_large)
      from 1(1) [OF False e] have "n div 10 = m div 10" .
      moreover from d have "n mod 10 = m mod 10" by (simp add: digitChar_inj)
      ultimately show ?thesis by (metis div_mult_mod_eq)
    qed
  qed
qed

lemma pipeName_inj: "pipeName p c = pipeName p d \<Longrightarrow> c = d"
  by (simp add: pipeName_def numberToString_inj)

lemma pipeName_plain: "plainName (pipeName p c)"
proof -
  have "CHR ''/'' \<notin> set (numberToString n)" "CHR 0x5C \<notin> set (numberToString n)" for n
    using numberToString_digits [of n] by auto
  then show ?thesis by (simp add: plainName_def pipeName_def)
qed

text \<open>Below \<open>2\<^sup>5\<^sup>3\<close> the counter counts exactly; at \<open>2\<^sup>5\<^sup>3\<close> it stays.\<close>

lemma increment_exact: "c < 2 ^ 53 \<Longrightarrow> increment c = Suc c"
  by (simp add: increment_def)

lemma increment_top: "increment (2 ^ 53) = 2 ^ 53"
  by (simp add: increment_def)

lemma startServer_counter:
  "counter l < 2 ^ 53 \<Longrightarrow> counter (startServer h l) = Suc (counter l)"
  by (simp add: startServer_def increment_exact Let_def)

lemma startServer_pipe:
  "counter l < 2 ^ 53 \<Longrightarrow>
   pipe (startServer h l) = Some (pathJoin h (pipePrefix h) (pipeName (pid h) (Suc (counter l))))"
  by (simp add: startServer_def increment_exact Let_def)

lemma startServers_paths:
  "counter l + n \<le> 2 ^ 53 \<Longrightarrow>
   fst (startServers h n l) =
     map (\<lambda>i. pathJoin h (pipePrefix h) (pipeName (pid h) (counter l + Suc i))) [0..<n]"
proof (induction n arbitrary: l)
  case 0
  show ?case by simp
next
  case (Suc n)
  from Suc.prems have small: "counter l < 2 ^ 53" by simp
  let ?l1 = "startServer h l"
  from small have c1: "counter ?l1 = Suc (counter l)" by (rule startServer_counter)
  with Suc.prems have "counter ?l1 + n \<le> 2 ^ 53" by simp
  from Suc.IH [OF this] c1
  have rest: "fst (startServers h n ?l1) =
      map (\<lambda>i. pathJoin h (pipePrefix h) (pipeName (pid h) (counter l + Suc (Suc i)))) [0..<n]"
    by simp
  have "fst (startServers h (Suc n) l) =
      pathJoin h (pipePrefix h) (pipeName (pid h) (Suc (counter l))) # fst (startServers h n ?l1)"
    by (simp add: startServer_pipe [OF small] split_def Let_def)
  also have "\<dots> =
      map (\<lambda>i. pathJoin h (pipePrefix h) (pipeName (pid h) (counter l + Suc i))) [0..<Suc n]"
    unfolding rest by (simp add: upt_conv_Cons map_Suc_upt [symmetric] del: upt_Suc)
  finally show ?case .
qed

lemma startServers_counter:
  "counter l + n \<le> 2 ^ 53 \<Longrightarrow> counter (snd (startServers h n l)) = counter l + n"
proof (induction n arbitrary: l)
  case 0
  show ?case by simp
next
  case (Suc n)
  from Suc.prems have small: "counter l < 2 ^ 53" by simp
  then have c1: "counter (startServer h l) = Suc (counter l)" by (rule startServer_counter)
  with Suc.prems have "counter (startServer h l) + n \<le> 2 ^ 53" by simp
  from Suc.IH [OF this] c1 show ?case
    by (simp add: startServer_pipe [OF small] split_def Let_def)
qed

text \<open>
  Claim C5. Let the counter stay within the range in which a JavaScript number counts
  exactly (\<open>counter + n \<le> 2\<^sup>5\<^sup>3\<close>), and let \<^verbatim>\<open>path.join\<close> of the platform's pipe
  prefix and a plain file name be that name behind a fixed root (the prefix with its
  separator). Then \<open>n\<close> consecutive invocations of \<^verbatim>\<open>_startServer\<close> produce \<open>n\<close>
  paths; the \<open>i\<close>-th is the root, \<^verbatim>\<open>node-cdp.\<close>, the process id, a dash, the counter
  and \<^verbatim>\<open>.sock\<close>, where the counter is one more at each call; the paths are pairwise
  distinct; and the counter has grown by \<open>n\<close>.
\<close>

theorem endpoint_paths_distinct:
  assumes range: "counter l + n \<le> 2 ^ 53"
    and join: "\<And>x. plainName x \<Longrightarrow> pathJoin h (pipePrefix h) x = root @ x"
  shows "fst (startServers h n l) =
           map (\<lambda>i. root @ ''node-cdp.'' @ numberToString (pid h) @ ''-''
                       @ numberToString (counter l + Suc i) @ ''.sock'') [0..<n]
         \<and> length (fst (startServers h n l)) = n
         \<and> distinct (fst (startServers h n l))
         \<and> counter (snd (startServers h n l)) = counter l + n"
proof -
  let ?f = "\<lambda>i. root @ pipeName (pid h) (counter l + Suc i)"
  have "fst (startServers h n l) =
      map (\<lambda>i. pathJoin h (pipePrefix h) (pipeName (pid h) (counter l + Suc i))) [0..<n]"
    using range by (rule startServers_paths)
  then have paths: "fst (startServers h n l) = map ?f [0..<n]"
    by (simp add: join pipeName_plain)
  have "inj_on ?f (set [0..<n])"
  proof (rule inj_onI)
    fix i j
    assume "?f i = ?f j"
    then have "pipeName (pid h) (counter l + Suc i) = pipeName (pid h) (counter l + Suc j)"
      by simp
    then have "counter l + Suc i = counter l + Suc j" by (rule pipeName_inj)
    then show "i = j" by simp
  qed
  then have "distinct (map ?f [0..<n])" by (simp add: distinct_map)
  with paths startServers_counter [OF range] show ?thesis by (simp add: pipeName_def)
qed

theorem endpoint_paths_distinct_witness:
  "counter (NodeLauncher_new None 8) + 3 \<le> 2 ^ 53
   \<and> pathJoin exampleHost (pipePrefix exampleHost) ''a.sock'' = ''/tmp/'' @ ''a.sock''
   \<and> fst (startServers exampleHost 3 (NodeLauncher_new None 8)) =
       [''/tmp/node-cdp.42-9.sock'', ''/tmp/node-cdp.42-10.sock'', ''/tmp/node-cdp.42-11.sock'']
   \<and> distinct (fst (startServers exampleHost 3 (NodeLauncher_new None 8)))"
proof -
  have r: "counter (NodeLauncher_new None 8) + 3 \<le> 2 ^ 53"
    by (simp add: NodeLauncher_new_def)
  have j: "pathJoin exampleHost (pipePrefix exampleHost) x = ''/tmp/'' @ x" for x
    by (simp add: exampleHost_def pipePrefix_def)
  have upt3: "[0..<3] = [0, 1, 2::nat]" by (simp add: upt_rec)
  from endpoint_paths_distinct [OF r j] r j [of "''a.sock''"] show ?thesis
    by (simp add: upt3 NodeLauncher_new_def exampleHost_def
        numberToString_small numberToString_large digitChar_def)
qed

section \<open>The launcher: the spawned environment\<close>

text \<open>
  Claim C8, on a launch whose own environment sets \<^verbatim>\<open>NODE_OPTIONS\<close> to
  \<^verbatim>\<open>--inspect\<close> while the inherited environment has no such variable. The launch
  environment does override the inherited one, and the endpoint and wait-mode variables
  are set; but the value of \<^verbatim>\<open>NODE_OPTIONS\<close> is built from the inherited variable
  alone, so the flag is not appended to the launch-supplied value: that value is
  replaced.
\<close>

theorem buildEnv_replaces_launch_NODE_OPTIONS:
  "env exampleParams = Some [''NODE_OPTIONS'' \<mapsto> ''--inspect'']
   \<and> processEnv exampleHost ''NODE_OPTIONS'' = None
   \<and> (let result = buildEnv exampleHost (startServer exampleHost (NodeLauncher_new None 0))
                      exampleParams
      in result ''NODE_OPTIONS'' = Some (Some '' --require /ext/bootloader.js'')
         \<and> result ''NODE_INSPECTOR_WAIT_FOR_DEBUGGER'' = Some (Some ''always'')
         \<and> result ''ELECTRON_RUN_AS_NODE'' = None)"
  by (simp add: buildEnv_def exampleHost_def exampleParams_def orElse_def Let_def)

section \<open>The launcher: restart and the exit watcher\<close>

text \<open>
  A probe that finds the old process gone while \<^verbatim>\<open>restart\<close> is still waiting for the
  new terminal is suppressed: nothing fires, and the watcher is cleared.
\<close>

lemma exit_inside_restart_suppressed:
  "map_sum id (\<lambda>l. (terminatedFired l, server l \<noteq> None, watchers l, isRestarting l))
     (andThen (andThen (andThen
        (launch_resume exampleHost exampleParams (NodeLauncher_new None 0))
        (relaunch_resume 100))
        (restart_begin exampleHost))
        (\<lambda>l. restart_resume 200 (watcherTick 100 (Throws ''ESRCH'') l)))
     = Inr (0, True, [200], False)"
  by (simp add: NodeLauncher_new_def launch_resume_def relaunch_begin_def relaunch_resume_def
      restart_begin_def restart_resume_def andThen_def startServer_def stopServer_def
      killRuntime_def watcherTick_def onProcessExit_tick_def exitCallback_def increment_def
      exampleHost_def exampleParams_def Let_def)

text \<open>
  Claim C4, on a launch whose terminal reports process 100, followed by a restart whose
  new terminal reports process 200. The watcher of process 100 is still installed when
  \<^verbatim>\<open>restart\<close> has completed and cleared \<^verbatim>\<open>_isRestarting\<close>. When its next probe
  then finds the killed process gone, its callback stops the server of the new
  generation and fires \<^verbatim>\<open>onTerminated\<close>; only the watcher of process 200 remains.
\<close>

theorem restart_then_late_exit_fires_terminated:
  "map_sum id (\<lambda>l. (isRestarting l, watchers l, terminatedFired l, server l \<noteq> None))
     (andThen (andThen (andThen
        (launch_resume exampleHost exampleParams (NodeLauncher_new None 0))
        (relaunch_resume 100))
        (restart_begin exampleHost))
        (restart_resume 200))
     = Inr (False, [100, 200], 0, True)
   \<and> map_sum id (\<lambda>l. (terminatedFired l, server l, watchers l))
       (andThen (andThen (andThen (andThen
          (launch_resume exampleHost exampleParams (NodeLauncher_new None 0))
          (relaunch_resume 100))
          (restart_begin exampleHost))
          (restart_resume 200))
          (\<lambda>l. Inr (watcherTick 100 (Throws ''ESRCH'') l)))
     = Inr (1, None, [200])"
  by (simp add: NodeLauncher_new_def launch_resume_def relaunch_begin_def relaunch_resume_def
      restart_begin_def restart_resume_def andThen_def startServer_def stopServer_def
      killRuntime_def watcherTick_def onProcessExit_tick_def exitCallback_def increment_def
      exampleHost_def exampleParams_def Let_def)

section \<open>The launcher: the launch blocker\<close>

lemma pstateOf_Done: "pstateOf ps b = Done \<longleftrightarrow> (\<forall>i\<in>predictions b. ps i = Done)"
  by (induction b) auto

lemma pstateOf_Failed: "pstateOf ps b = Failed \<longleftrightarrow> (\<exists>i\<in>predictions b. ps i = Failed)"
  by (induction b) auto

lemma pstateOf_cong: "(\<forall>i\<in>predictions b. ps i = ps' i) \<Longrightarrow> pstateOf ps b = pstateOf ps' b"
  by (induction b) auto

text \<open>The blocker is built from exactly the predictions requested so far.\<close>

lemma predictBreakpoints_predictions:
  "predictions (launchBlocker l) = {..<nextPrediction l} \<Longrightarrow>
   predictions (launchBlocker (snd (predictBreakpoints l))) =
     {..<nextPrediction (snd (predictBreakpoints l))}"
  by (simp add: predictBreakpoints_def Let_def lessThan_Suc)

lemma predictMany_predictions:
  "predictions (launchBlocker l) = {..<nextPrediction l} \<Longrightarrow>
   predictions (launchBlocker (predictMany n l)) = {..<nextPrediction (predictMany n l)}"
proof (induction n arbitrary: l)
  case 0
  then show ?case by simp
next
  case (Suc n)
  from Suc.IH [OF predictBreakpoints_predictions [OF Suc.prems]] show ?case by simp
qed

lemma predictMany_count:
  "nextPrediction (predictMany n l) =
     (if breakpointsPredictor l then nextPrediction l + n else nextPrediction l)"
  by (induction n arbitrary: l) (simp_all add: predictBreakpoints_def Let_def)

lemma predictMany_predictor:
  "breakpointsPredictor (predictMany n l) = breakpointsPredictor l"
  by (induction n arbitrary: l) (simp_all add: predictBreakpoints_def Let_def)

text \<open>
  A \<^verbatim>\<open>launch\<close> call without a \<^verbatim>\<open>command\<close> property has returned while the one
  prediction requested before it is pending. And a \<^verbatim>\<open>launch\<close> call with a command,
  made after two predictions, has failed as soon as the second is rejected, while the
  first is still pending.
\<close>

theorem launch_completes_before_predictions:
  "(let (p, l) = predictBreakpoints (NodeLauncher_new (Some ''/ws'') 0)
    in pstateOf (\<lambda>i. Pending) p = Pending
       \<and> launch_await (\<lambda>i. Pending) (launch_begin (exampleParams\<lparr>command := None\<rparr>) l) = Done)
   \<and> launch_await (\<lambda>i. if i = 0 then Pending else Failed)
        (launch_begin exampleParams (predictMany 2 (NodeLauncher_new (Some ''/ws'') 0)))
      = Failed"
  by (simp add: predictBreakpoints_def NodeLauncher_new_def launch_begin_def exampleParams_def
      numeral_2_eq_2 Let_def)

text \<open>What the rest of \<^verbatim>\<open>launch\<close> leaves behind: the parameters are stored, a server
  listens on a new path, and a terminal has been created.\<close>

lemma launch_resume_result:
  "\<exists>l2. launch_resume h params l = Inr l2
        \<and> launchParams l2 = Some params
        \<and> server l2 = Some (pathJoin h (pipePrefix h) (pipeName (pid h) (increment (counter l))))
        \<and> pipe l2 = server l2 \<and> terminal l2 \<noteq> None"
  by (simp add: launch_resume_def relaunch_begin_def startServer_def killRuntime_def Let_def
      split: option.splits)

text \<open>
  Claim C7, as amended. Take a launcher \<open>l\<close> on which \<open>n\<close> predictions have been
  requested; the predictions requested so far are those numbered below
  \<^verbatim>\<open>nextPrediction\<close> (\<open>n\<close> of them with a predictor, none without). Let a
  \<^verbatim>\<open>launch\<close> call begin on \<open>l\<close>, and let it take its next turn when the predictor's
  promises are in the states \<open>ps\<close> and the launcher has become \<open>l'\<close>.

  A call whose parameters have no \<^verbatim>\<open>command\<close> property returns at once: it waits
  for nothing, whatever \<open>ps\<close> is, and leaves the launcher as it is.

  A call whose parameters have a \<^verbatim>\<open>command\<close> property waits for the blocker as it
  is when the call begins. It gets past its wait exactly when every prediction requested
  before it is fulfilled, and fails exactly when one of them is rejected; whether it does
  depends on no other prediction, so those requested after the call began are not waited
  on. Only when all of them are fulfilled does the call run the rest of \<^verbatim>\<open>launch\<close>,
  which stores the parameters and starts a server on a new path; in the two other cases
  the launcher is left as it is.
\<close>

theorem launch_waits_for_earlier_predictions:
  assumes l: "l = predictMany n (NodeLauncher_new root c)"
  shows "nextPrediction l = (if breakpointsPredictor l then n else 0)
         \<and> (command params = None \<longrightarrow>
               launch_begin params l = Returned
               \<and> launch_await ps (launch_begin params l) = Done
               \<and> launch_turn h ps params (launch_begin params l) l' = NoOp l')
         \<and> (command params \<noteq> None \<longrightarrow>
               launch_begin params l = Waits (launchBlocker l)
               \<and> (launch_await ps (launch_begin params l) = Done
                    \<longleftrightarrow> (\<forall>i<nextPrediction l. ps i = Done))
               \<and> (launch_await ps (launch_begin params l) = Failed
                    \<longleftrightarrow> (\<exists>i<nextPrediction l. ps i = Failed))
               \<and> ((\<forall>i<nextPrediction l. ps i = ps' i)
                    \<longrightarrow> launch_await ps (launch_begin params l)
                          = launch_await ps' (launch_begin params l))
               \<and> launch_turn h ps params (launch_begin params l) l' =
                   (if \<forall>i<nextPrediction l. ps i = Done
                    then Resumed (launch_resume h params l')
                    else if \<exists>i<nextPrediction l. ps i = Failed then BlockerRejected l'
                    else StillWaiting l')
               \<and> (case launch_resume h params l' of
                     Inl e \<Rightarrow> False
                   | Inr l2 \<Rightarrow>
                       launchParams l2 = Some params
                       \<and> server l2 = Some (pathJoin h (pipePrefix h)
                                             (pipeName (pid h) (increment (counter l'))))
                       \<and> pipe l2 = server l2 \<and> terminal l2 \<noteq> None))"
proof -
  have "predictions (launchBlocker (NodeLauncher_new root c)) =
      {..<nextPrediction (NodeLauncher_new root c)}"
    by (simp add: NodeLauncher_new_def)
  then have p: "predictions (launchBlocker l) = {..<nextPrediction l}"
    unfolding l by (rule predictMany_predictions)
  have n: "nextPrediction l = (if breakpointsPredictor l then n else 0)"
    unfolding l
    by (simp add: predictMany_count predictMany_predictor) (simp add: NodeLauncher_new_def)
  have none: "launch_begin params l = Returned
      \<and> launch_await ps (launch_begin params l) = Done
      \<and> launch_turn h ps params (launch_begin params l) l' = NoOp l'"
    if "command params = None"
    using that by (simp add: launch_begin_def launch_turn_def)
  have some: "launch_begin params l = Waits (launchBlocker l)
      \<and> (launch_await ps (launch_begin params l) = Done
           \<longleftrightarrow> (\<forall>i<nextPrediction l. ps i = Done))
      \<and> (launch_await ps (launch_begin params l) = Failed
           \<longleftrightarrow> (\<exists>i<nextPrediction l. ps i = Failed))
      \<and> ((\<forall>i<nextPrediction l. ps i = ps' i)
           \<longrightarrow> launch_await ps (launch_begin params l)
                 = launch_await ps' (launch_begin params l))
      \<and> launch_turn h ps params (launch_begin params l) l' =
          (if \<forall>i<nextPrediction l. ps i = Done
           then Resumed (launch_resume h params l')
           else if \<exists>i<nextPrediction l. ps i = Failed then BlockerRejected l'
           else StillWaiting l')
      \<and> (case launch_resume h params l' of
            Inl e \<Rightarrow> False
          | Inr l2 \<Rightarrow>
              launchParams l2 = Some params
              \<and> server l2 = Some (pathJoin h (pipePrefix h)
                                    (pipeName (pid h) (increment (counter l'))))
              \<and> pipe l2 = server l2 \<and> terminal l2 \<noteq> None)"
    if cmd: "command params \<noteq> None"
  proof -
    have b: "launch_begin params l = Waits (launchBlocker l)"
      using cmd by (simp add: launch_begin_def)
    have dd: "pstateOf ps (launchBlocker l) = Done \<longleftrightarrow> (\<forall>i<nextPrediction l. ps i = Done)"
      by (auto simp: pstateOf_Done p)
    have ff: "pstateOf ps (launchBlocker l) = Failed \<longleftrightarrow> (\<exists>i<nextPrediction l. ps i = Failed)"
      by (auto simp: pstateOf_Failed p)
    have d: "launch_await ps (launch_begin params l) = Done
        \<longleftrightarrow> (\<forall>i<nextPrediction l. ps i = Done)"
      by (simp only: b launch_await.simps dd)
    have f: "launch_await ps (launch_begin params l) = Failed
        \<longleftrightarrow> (\<exists>i<nextPrediction l. ps i = Failed)"
      by (simp only: b launch_await.simps ff)
    have e: "(\<forall>i<nextPrediction l. ps i = ps' i)
         \<longrightarrow> launch_await ps (launch_begin params l) = launch_await ps' (launch_begin params l)"
      using pstateOf_cong [of "launchBlocker l" ps ps'] by (simp add: b p)
    have t: "launch_turn h ps params (launch_begin params l) l' =
          (if \<forall>i<nextPrediction l. ps i = Done
           then Resumed (launch_resume h params l')
           else if \<exists>i<nextPrediction l. ps i = Failed then BlockerRejected l'
           else StillWaiting l')"
    proof (cases "pstateOf ps (launchBlocker l)")
      case Pending
      with dd ff show ?thesis by (simp add: b launch_turn_def)
    next
      case Done
      with dd show ?thesis by (simp add: b launch_turn_def)
    next
      case Failed
      with dd ff show ?thesis by (simp add: b launch_turn_def)
    qed
    have r: "(case launch_resume h params l' of
            Inl e \<Rightarrow> False
          | Inr l2 \<Rightarrow>
              launchParams l2 = Some params
              \<and> server l2 = Some (pathJoin h (pipePrefix h)
                                    (pipeName (pid h) (increment (counter l'))))
              \<and> pipe l2 = server l2 \<and> terminal l2 \<noteq> None)"
      using launch_resume_result [of h params l'] by auto
    show ?thesis
      by (rule conjI, rule b, rule conjI, rule d, rule conjI, rule f, rule conjI, rule e,
          rule conjI, rule t, rule r)
  qed
  show ?thesis
    by (rule conjI, rule n, rule conjI, rule impI, erule none, rule impI, erule some)
qed

theorem launch_waits_for_earlier_predictions_witness:
  "nextPrediction (predictMany 2 (NodeLauncher_new (Some ''/ws'') 0)) = 2
   \<and> command exampleParams \<noteq> None
   \<and> launch_await (\<lambda>i. if i < 2 then Done else Pending)
        (launch_begin exampleParams (predictMany 2 (NodeLauncher_new (Some ''/ws'') 0))) = Done
   \<and> launch_turn exampleHost (\<lambda>i. if i < 2 then Done else Pending) exampleParams
        (launch_begin exampleParams (predictMany 2 (NodeLauncher_new (Some ''/ws'') 0)))
        (predictMany 3 (NodeLauncher_new (Some ''/ws'') 0))
      = Resumed (launch_resume exampleHost exampleParams
                  (predictMany 3 (NodeLauncher_new (Some ''/ws'') 0)))
   \<and> command (exampleParams\<lparr>command := None\<rparr>) = None
   \<and> launch_turn exampleHost (\<lambda>i. Pending) (exampleParams\<lparr>command := None\<rparr>)
        (launch_begin (exampleParams\<lparr>command := None\<rparr>)
          (predictMany 2 (NodeLauncher_new (Some ''/ws'') 0)))
        (predictMany 2 (NodeLauncher_new (Some ''/ws'') 0))
      = NoOp (predictMany 2 (NodeLauncher_new (Some ''/ws'') 0))"
proof -
  let ?l = "predictMany 2 (NodeLauncher_new (Some ''/ws'') 0)"
  let ?l' = "predictMany 3 (NodeLauncher_new (Some ''/ws'') 0)"
  let ?ps = "\<lambda>i::nat. if i < 2 then Done else Pending"
  let ?np = "exampleParams\<lparr>command := None\<rparr>"
  have c: "command exampleParams \<noteq> None" by (simp add: exampleParams_def)
  have c0: "command ?np = None" by simp
  have p: "breakpointsPredictor ?l"
    by (simp add: predictMany_predictor NodeLauncher_new_def)
  note t = launch_waits_for_earlier_predictions
    [OF refl, of 2 "Some ''/ws''" 0 exampleParams ?ps exampleHost ?l' ?ps]
  note u = launch_waits_for_earlier_predictions
    [OF refl, of 2 "Some ''/ws''" 0 ?np "\<lambda>i. Pending" exampleHost ?l "\<lambda>i. Pending"]
  from t [THEN conjunct1] p have n: "nextPrediction ?l = 2" by simp
  note t2 = t [THEN conjunct2, THEN conjunct2, THEN mp, OF c]
  have "launch_await ?ps (launch_begin exampleParams ?l) = Done
      \<longleftrightarrow> (\<forall>i<nextPrediction ?l. ?ps i = Done)"
    by (rule t2 [THEN conjunct2, THEN conjunct1])
  with n have a: "launch_await ?ps (launch_begin exampleParams ?l) = Done" by simp
  have "launch_turn exampleHost ?ps exampleParams (launch_begin exampleParams ?l) ?l' =
      (if \<forall>i<nextPrediction ?l. ?ps i = Done
       then Resumed (launch_resume exampleHost exampleParams ?l')
       else if \<exists>i<nextPrediction ?l. ?ps i = Failed then BlockerRejected ?l'
       else StillWaiting ?l')"
    by (rule t2 [THEN conjunct2, THEN conjunct2, THEN conjunct2, THEN conjunct2, THEN conjunct1])
  with n have r: "launch_turn exampleHost ?ps exampleParams (launch_begin exampleParams ?l) ?l'
      = Resumed (launch_resume exampleHost exampleParams ?l')" by simp
  have z: "launch_turn exampleHost (\<lambda>i. Pending) ?np (launch_begin ?np ?l) ?l = NoOp ?l"
    by (rule u [THEN conjunct2, THEN conjunct1, THEN mp, OF c0, THEN conjunct2, THEN conjunct2])
  show ?thesis
    by (rule conjI, rule n, rule conjI, rule c, rule conjI, rule a, rule conjI, rule r,
        rule conjI, rule c0, rule z)
qed

end
